theory Spec2Isabelle
  imports Complex_Main "HOL-Library.AList" "HOL-Library.Sublist"
begin

section \<open>Python values and the operations the clients apply to them\<close>

text \<open>
  Both clients work on whatever \<^verbatim>\<open>json.loads\<close> returns, so values are dynamically
  typed. A JSON object is an association list in insertion order (\<open>map_of\<close> looks a key
  up, \<open>AList.update\<close> is Python's \<^verbatim>\<open>d[k] = v\<close>). \<open>JNull\<close> is Python's \<^verbatim>\<open>None\<close>.
  JSON numbers with a fraction or an exponent are outside the model. The floats that the
  clients compute by true division are modelled as reals: the conversion of an integer to
  a float fails as in Python when the integer is too large, and the quotient is then the
  exact one: rounding, and the infinity that a float quotient too large for a float becomes,
  are not modelled. A byte string and a decoded string are both \<open>string\<close>.
\<close>

type_synonym bytes = string

datatype json =
    JNull
  | JBool bool
  | JInt int
  | JStr string
  | JArr "json list"
  | JObj "(string \<times> json) list"

text \<open>
  The exceptions that can reach the clients. The first five are classes of
  \<^verbatim>\<open>requests.exceptions\<close> and derive from \<^verbatim>\<open>RequestException\<close>;
  \<^verbatim>\<open>requests.exceptions.JSONDecodeError\<close> (raised by \<^verbatim>\<open>Response.json()\<close>) derives from
  \<^verbatim>\<open>json.JSONDecodeError\<close> as well.
\<close>

datatype exn =
    ConnectionError
  | Timeout
  | HTTPError nat
  | ChunkedEncodingError
  | RequestsJSONDecodeError
  | JSONDecodeError
  | UnicodeDecodeError
  | AttributeError
  | TypeError
  | KeyError
  | ZeroDivisionError
  | OverflowError
  | ValueError
  | RecursionError
  | UnicodeEncodeError

fun is_RequestException :: "exn \<Rightarrow> bool" where
  "is_RequestException ConnectionError = True"
| "is_RequestException Timeout = True"
| "is_RequestException (HTTPError _) = True"
| "is_RequestException ChunkedEncodingError = True"
| "is_RequestException RequestsJSONDecodeError = True"
| "is_RequestException _ = False"

fun is_JSONDecodeError :: "exn \<Rightarrow> bool" where
  "is_JSONDecodeError RequestsJSONDecodeError = True"
| "is_JSONDecodeError JSONDecodeError = True"
| "is_JSONDecodeError _ = False"

text \<open>Truth value of a Python object, as \<^verbatim>\<open>if x:\<close> tests it.\<close>

fun truthy :: "json \<Rightarrow> bool" where
  "truthy JNull = False"
| "truthy (JBool b) = b"
| "truthy (JInt n) = (n \<noteq> 0)"
| "truthy (JStr s) = (s \<noteq> [])"
| "truthy (JArr xs) = (xs \<noteq> [])"
| "truthy (JObj kv) = (kv \<noteq> [])"

definition dict_get :: "(string \<times> json) list \<Rightarrow> string \<Rightarrow> json \<Rightarrow> json" where
  "dict_get kv k d = (case map_of kv k of None \<Rightarrow> d | Some v \<Rightarrow> v)"

text \<open>\<^verbatim>\<open>data.get(k, d)\<close>: only a dict has the method.\<close>

fun py_get :: "json \<Rightarrow> string \<Rightarrow> json \<Rightarrow> exn + json" where
  "py_get (JObj kv) k d = Inr (dict_get kv k d)"
| "py_get _ k d = Inl AttributeError"

text \<open>\<^verbatim>\<open>k in data\<close> for a string \<open>k\<close>: key of a dict, substring of a string, element of a list.\<close>

fun py_in :: "string \<Rightarrow> json \<Rightarrow> exn + bool" where
  "py_in k (JObj kv) = Inr (map_of kv k \<noteq> None)"
| "py_in k (JStr s) = Inr (sublist k s)"
| "py_in k (JArr xs) = Inr (JStr k \<in> set xs)"
| "py_in k _ = Inl TypeError"

text \<open>\<^verbatim>\<open>data[k]\<close> for a string \<open>k\<close>.\<close>

fun py_index :: "json \<Rightarrow> string \<Rightarrow> exn + json" where
  "py_index (JObj kv) k = (case map_of kv k of None \<Rightarrow> Inl KeyError | Some v \<Rightarrow> Inr v)"
| "py_index _ k = Inl TypeError"

text \<open>The integer a value stands for in arithmetic (\<^verbatim>\<open>bool\<close> is a subclass of \<^verbatim>\<open>int\<close>).\<close>

fun py_num :: "json \<Rightarrow> int option" where
  "py_num (JInt n) = Some n"
| "py_num (JBool b) = Some (if b then 1 else 0)"
| "py_num _ = None"

text \<open>
  The integers that Python converts to a float: those that round to a float below
  \<open>2 ^ 1024\<close>. The others give \<^verbatim>\<open>OverflowError\<close> (int too large to convert to float).
\<close>

definition float_range :: "int \<Rightarrow> bool" where
  "float_range n = (\<bar>n\<bar> < 2 ^ 1024 - 2 ^ 970)"

text \<open>
  \<^verbatim>\<open>x / d\<close> for a float \<open>d\<close>: the left operand is converted to a float first, then the
  divisor is tested.
\<close>

definition py_truediv :: "json \<Rightarrow> real \<Rightarrow> exn + real" where
  "py_truediv x d =
     (case py_num x of
        None \<Rightarrow> Inl TypeError
      | Some n \<Rightarrow>
          if \<not> float_range n then Inl OverflowError
          else if d = 0 then Inl ZeroDivisionError
          else Inr (real_of_int n / d))"

text \<open>
  The text of a value inside an f-string. \<^verbatim>\<open>str\<close> refuses an integer of more than 4300
  digits with \<^verbatim>\<open>ValueError\<close>. \<^verbatim>\<open>json.loads\<close> refuses such an integer too, so a value taken
  from the parsed data always has a text; the clients format one computed integer, the
  sum of the two counts, and this is where the limit is modelled.
\<close>

fun digits :: "nat \<Rightarrow> nat" where
  "digits n = (if n < 10 then 1 else Suc (digits (n div 10)))"

declare digits.simps [simp del]

definition py_format :: "json \<Rightarrow> exn + json" where
  "py_format v =
     (case v of
        JInt n \<Rightarrow> if digits (nat \<bar>n\<bar>) \<le> 4300 then Inr v else Inl ValueError
      | _ \<Rightarrow> Inr v)"

text \<open>\<^verbatim>\<open>x > 0\<close>.\<close>

definition py_gt0 :: "json \<Rightarrow> exn + bool" where
  "py_gt0 x = (case py_num x of None \<Rightarrow> Inl TypeError | Some n \<Rightarrow> Inr (0 < n))"

text \<open>\<^verbatim>\<open>x + y\<close>.\<close>

definition py_add :: "json \<Rightarrow> json \<Rightarrow> exn + json" where
  "py_add x y =
     (case (x, y) of
        (JStr a, JStr b) \<Rightarrow> Inr (JStr (a @ b))
      | (JArr a, JArr b) \<Rightarrow> Inr (JArr (a @ b))
      | _ \<Rightarrow> (case (py_num x, py_num y) of
                (Some a, Some b) \<Rightarrow> Inr (JInt (a + b))
              | _ \<Rightarrow> Inl TypeError))"

text \<open>\<^verbatim>\<open>len(x)\<close>.\<close>

fun py_len :: "json \<Rightarrow> exn + nat" where
  "py_len (JStr s) = Inr (length s)"
| "py_len (JArr xs) = Inr (length xs)"
| "py_len (JObj kv) = Inr (length kv)"
| "py_len _ = Inl TypeError"

section \<open>Effects: a state that is passed on, and an exception or a value\<close>

type_synonym ('s, 'a) prog = "'s \<Rightarrow> 's \<times> (exn + 'a)"

definition ret :: "'a \<Rightarrow> ('s, 'a) prog" where
  "ret a s = (s, Inr a)"

definition raise :: "exn \<Rightarrow> ('s, 'a) prog" where
  "raise e s = (s, Inl e)"

definition lift :: "exn + 'a \<Rightarrow> ('s, 'a) prog" where
  "lift r s = (s, r)"

definition seq :: "('s, 'a) prog \<Rightarrow> ('a \<Rightarrow> ('s, 'b) prog) \<Rightarrow> ('s, 'b) prog" where
  "seq m f s = (case m s of (s', Inl e) \<Rightarrow> (s', Inl e) | (s', Inr a) \<Rightarrow> f a s')"

text \<open>\<^verbatim>\<open>try: m except ...: h\<close>; a handler that does not match re-raises.\<close>

definition try_except :: "('s, 'a) prog \<Rightarrow> (exn \<Rightarrow> ('s, 'a) prog) \<Rightarrow> ('s, 'a) prog" where
  "try_except m h s = (case m s of (s', Inl e) \<Rightarrow> h e s' | (s', Inr a) \<Rightarrow> (s', Inr a))"

section \<open>The environment: the libraries and the server\<close>

record http_request =
  url :: string
  json_payload :: json
  stream_kw :: bool
  timeout_kw :: int

text \<open>
  A response as the clients read it: the status, the lines that \<^verbatim>\<open>iter_lines()\<close> yields
  and the exception that ends the iteration when the connection breaks, and the body.
\<close>

record response =
  status_code :: nat
  iter_lines :: "bytes list"
  iter_error :: "exn option"
  content :: bytes

datatype post_result = PostRaises exn | PostReturns response

text \<open>
  The library calls whose code is not part of the clients are parameters:
  \<^item> \<open>utf8_decode\<close> is \<^verbatim>\<open>bytes.decode("utf-8")\<close>; \<open>None\<close> is \<^verbatim>\<open>UnicodeDecodeError\<close>;
  \<^item> \<open>json_loads\<close> is \<^verbatim>\<open>json.loads\<close>, with the exception that it raises:
    \<^verbatim>\<open>json.JSONDecodeError\<close> for a text that is not JSON, and also \<^verbatim>\<open>RecursionError\<close> for
    a text nested too deeply or \<^verbatim>\<open>ValueError\<close> for an integer of too many digits;
  \<^item> \<open>response_json\<close> is \<^verbatim>\<open>Response.json()\<close>, with the exception that it raises:
    \<^verbatim>\<open>requests.exceptions.JSONDecodeError\<close> for a body that is not JSON, and the others as
    \<^verbatim>\<open>json.loads\<close>;
  \<^item> \<open>requests_post\<close> is \<^verbatim>\<open>requests.post\<close> together with the server that answers;
  \<^item> \<open>stdout_encodable\<close> says whether standard output can encode a text; when it
    cannot, writing the text raises \<^verbatim>\<open>UnicodeEncodeError\<close>. (The error stream replaces
    what it cannot encode, so printing there never fails.)
\<close>

record env =
  utf8_decode :: "bytes \<Rightarrow> string option"
  json_loads :: "string \<Rightarrow> exn + json"
  response_json :: "response \<Rightarrow> exn + json"
  requests_post :: "http_request \<Rightarrow> post_result"
  stdout_encodable :: "string \<Rightarrow> bool"

definition decode :: "env \<Rightarrow> bytes \<Rightarrow> exn + string" where
  "decode E line = (case utf8_decode E line of None \<Rightarrow> Inl UnicodeDecodeError | Some s \<Rightarrow> Inr s)"

definition loads :: "env \<Rightarrow> string \<Rightarrow> exn + json" where
  "loads E s = json_loads E s"

definition resp_json :: "env \<Rightarrow> response \<Rightarrow> exn + json" where
  "resp_json E r = response_json E r"

definition post :: "env \<Rightarrow> http_request \<Rightarrow> exn + response" where
  "post E req = (case requests_post E req of PostRaises e \<Rightarrow> Inl e | PostReturns r \<Rightarrow> Inr r)"

definition raise_for_status :: "response \<Rightarrow> exn + unit" where
  "raise_for_status r =
     (if 400 \<le> status_code r \<and> status_code r < 600 then Inl (HTTPError (status_code r))
      else Inr ())"

definition OLLAMA_HOST :: string where
  "OLLAMA_HOST = ''http://localhost:11434''"

definition newline :: string where
  "newline = [CHR 0x0A]"

section \<open>The command-line client (ollama\_client.py)\<close>

text \<open>
  What the client prints is kept as data: \<open>stdout\<close> holds the strings written, in order;
  \<open>stderr\<close> holds one item per \<^verbatim>\<open>print(..., file=sys.stderr)\<close>, with the value that the
  f-string formats.
\<close>

datatype err_item =
    Rule
  | Title
  | ModelLine json
  | TimingHeader
  | TotalDuration real
  | LoadDuration real
  | PromptEvalDuration real
  | GenerationDuration real
  | TokensHeader
  | PromptTokens json
  | GeneratedTokens json
  | TotalTokens json
  | PromptEvalSpeed real
  | GenerationSpeed real
  | CompletionReason json
  | ContextSize nat
  | ErrUnreachable exn
  | ErrInvalidJSON exn

record cli_io =
  stdout :: "string list"
  stderr :: "err_item list"

definition eprint :: "err_item \<Rightarrow> (cli_io, unit) prog" where
  "eprint x s = (s\<lparr>stderr := stderr s @ [x]\<rparr>, Inr ())"

text \<open>A text goes to standard output when the stream can encode it.\<close>

definition print_out :: "env \<Rightarrow> string \<Rightarrow> (cli_io, unit) prog" where
  "print_out E x s =
     (if stdout_encodable E x then (s\<lparr>stdout := stdout s @ [x]\<rparr>, Inr ())
      else (s, Inl UnicodeEncodeError))"

text \<open>\<^verbatim>\<open>sys.stdout.write(chunk)\<close> accepts a \<^verbatim>\<open>str\<close> only.\<close>

definition stdout_write :: "env \<Rightarrow> json \<Rightarrow> (cli_io, unit) prog" where
  "stdout_write E chunk = (case chunk of JStr s \<Rightarrow> print_out E s | _ \<Rightarrow> raise TypeError)"

text \<open>\<^verbatim>\<open>data.get(k, 0) / 1e9\<close>\<close>

definition get_seconds :: "json \<Rightarrow> string \<Rightarrow> exn + real" where
  "get_seconds data k =
     (case py_get data k (JInt 0) of Inl e \<Rightarrow> Inl e | Inr v \<Rightarrow> py_truediv v 1000000000)"

definition print_verbose_stats :: "json \<Rightarrow> (cli_io, unit) prog" where
  "print_verbose_stats data =
     seq (eprint Rule) (\<lambda>_.
     seq (eprint Title) (\<lambda>_.
     seq (eprint Rule) (\<lambda>_.
     seq (lift (py_in ''model'' data)) (\<lambda>has_model.
     seq (if has_model
          then seq (lift (py_index data ''model'')) (\<lambda>m. eprint (ModelLine m))
          else ret ()) (\<lambda>_.
     seq (lift (get_seconds data ''total_duration'')) (\<lambda>total_duration.
     seq (lift (get_seconds data ''load_duration'')) (\<lambda>load_duration.
     seq (lift (get_seconds data ''prompt_eval_duration'')) (\<lambda>prompt_eval_duration.
     seq (lift (get_seconds data ''eval_duration'')) (\<lambda>eval_duration.
     seq (eprint TimingHeader) (\<lambda>_.
     seq (eprint (TotalDuration total_duration)) (\<lambda>_.
     seq (eprint (LoadDuration load_duration)) (\<lambda>_.
     seq (eprint (PromptEvalDuration prompt_eval_duration)) (\<lambda>_.
     seq (eprint (GenerationDuration eval_duration)) (\<lambda>_.
     seq (lift (py_get data ''prompt_eval_count'' (JInt 0))) (\<lambda>prompt_eval_count.
     seq (lift (py_get data ''eval_count'' (JInt 0))) (\<lambda>eval_count.
     seq (eprint TokensHeader) (\<lambda>_.
     seq (eprint (PromptTokens prompt_eval_count)) (\<lambda>_.
     seq (eprint (GeneratedTokens eval_count)) (\<lambda>_.
     seq (lift (py_add prompt_eval_count eval_count)) (\<lambda>sum.
     seq (lift (py_format sum)) (\<lambda>total.
     seq (eprint (TotalTokens total)) (\<lambda>_.
     seq (if 0 < prompt_eval_duration
          then seq (lift (py_gt0 prompt_eval_count)) (\<lambda>pos.
               if pos
               then seq (lift (py_truediv prompt_eval_count prompt_eval_duration)) (\<lambda>prompt_tokens_per_sec.
                    eprint (PromptEvalSpeed prompt_tokens_per_sec))
               else ret ())
          else ret ()) (\<lambda>_.
     seq (if 0 < eval_duration
          then seq (lift (py_gt0 eval_count)) (\<lambda>pos.
               if pos
               then seq (lift (py_truediv eval_count eval_duration)) (\<lambda>gen_tokens_per_sec.
                    eprint (GenerationSpeed gen_tokens_per_sec))
               else ret ())
          else ret ()) (\<lambda>_.
     seq (lift (py_in ''done_reason'' data)) (\<lambda>has_reason.
     seq (if has_reason
          then seq (lift (py_index data ''done_reason'')) (\<lambda>r. eprint (CompletionReason r))
          else ret ()) (\<lambda>_.
     seq (lift (py_in ''context'' data)) (\<lambda>has_context.
     seq (if has_context
          then seq (lift (py_index data ''context'')) (\<lambda>c.
               seq (lift (py_len c)) (\<lambda>n. eprint (ContextSize n)))
          else ret ()) (\<lambda>_.
     eprint Rule))))))))))))))))))))))))))))"

text \<open>The body of the streaming loop: one line of the response.\<close>

definition stream_line :: "env \<Rightarrow> bytes \<Rightarrow> json option \<Rightarrow> (cli_io, json option) prog" where
  "stream_line E line last_data =
     (if line = [] then ret last_data
      else
        seq (lift (decode E line)) (\<lambda>text.
        seq (lift (loads E text)) (\<lambda>data.
        seq (lift (py_get data ''response'' (JStr ''''))) (\<lambda>chunk.
        seq (stdout_write E chunk) (\<lambda>_.
        seq (lift (py_get data ''done'' (JBool False))) (\<lambda>done.
        ret (if truthy done then Some data else last_data)))))))"

primrec stream_loop :: "env \<Rightarrow> bytes list \<Rightarrow> json option \<Rightarrow> (cli_io, json option) prog" where
  "stream_loop E [] = (\<lambda>last_data. ret last_data)"
| "stream_loop E (line # rest) =
     (\<lambda>last_data. seq (stream_line E line last_data) (\<lambda>last_data'. stream_loop E rest last_data'))"

text \<open>\<^verbatim>\<open>for line in resp.iter_lines()\<close>: the lines, then the exception of a broken connection.\<close>

definition for_iter_lines :: "env \<Rightarrow> response \<Rightarrow> (cli_io, json option) prog" where
  "for_iter_lines E resp =
     seq (stream_loop E (iter_lines resp) None) (\<lambda>last_data.
     case iter_error resp of None \<Rightarrow> ret last_data | Some e \<Rightarrow> raise e)"

definition build_payload :: "string \<Rightarrow> string \<Rightarrow> bool \<Rightarrow> int option \<Rightarrow> (string \<times> json) list" where
  "build_payload prompt model stream num_gpu =
     (let payload = [(''model'', JStr model), (''prompt'', JStr prompt), (''stream'', JBool stream)]
      in case num_gpu of
           None \<Rightarrow> payload
         | Some n \<Rightarrow> AList.update ''options'' (JObj [(''num_gpu'', JInt n)]) payload)"

definition generate_try :: "env \<Rightarrow> string \<Rightarrow> json \<Rightarrow> bool \<Rightarrow> int \<Rightarrow> bool \<Rightarrow> (cli_io, json) prog" where
  "generate_try E u payload stream timeout verbose =
     (if stream then
        seq (lift (post E \<lparr>url = u, json_payload = payload, stream_kw = True, timeout_kw = timeout\<rparr>)) (\<lambda>resp.
        seq (lift (raise_for_status resp)) (\<lambda>_.
        seq (for_iter_lines E resp) (\<lambda>last_data.
        seq (print_out E newline) (\<lambda>_.
        seq (case last_data of
               None \<Rightarrow> ret ()
             | Some d \<Rightarrow> if verbose \<and> truthy d then print_verbose_stats d else ret ()) (\<lambda>_.
        ret JNull)))))
      else
        seq (lift (post E \<lparr>url = u, json_payload = payload, stream_kw = False, timeout_kw = timeout\<rparr>)) (\<lambda>resp.
        seq (lift (raise_for_status resp)) (\<lambda>_.
        seq (lift (resp_json E resp)) (\<lambda>data.
        seq (if verbose then print_verbose_stats data else ret ()) (\<lambda>_.
        lift (py_get data ''response'' (JStr '''')))))))"

definition generate_except :: "exn \<Rightarrow> (cli_io, json) prog" where
  "generate_except e =
     (if is_RequestException e then seq (eprint (ErrUnreachable e)) (\<lambda>_. ret JNull)
      else if is_JSONDecodeError e then seq (eprint (ErrInvalidJSON e)) (\<lambda>_. ret JNull)
      else raise e)"

definition generate :: "env \<Rightarrow> string \<Rightarrow> string \<Rightarrow> bool \<Rightarrow> int \<Rightarrow> int option \<Rightarrow> bool \<Rightarrow> (cli_io, json) prog" where
  "generate E prompt model stream timeout num_gpu verbose =
     (let u = OLLAMA_HOST @ ''/api/generate'';
          payload = JObj (build_payload prompt model stream num_gpu)
      in try_except (generate_try E u payload stream timeout verbose) generate_except)"

section \<open>The desktop client (ollama\_gui.py)\<close>

text \<open>
  The background thread touches no widget: it hands calls to the event loop with
  \<^verbatim>\<open>self.root.after(0, f, args)\<close>. The state of the thread is the queue of these calls,
  in the order in which they were handed over; the event loop runs them in that order.
\<close>

datatype out_text = Text json | ErrorText exn

datatype ui_call =
    AppendOutput out_text
  | UpdateStatus string string
  | UpdateStats json
  | GenerationComplete

definition after :: "ui_call \<Rightarrow> (ui_call list, unit) prog" where
  "after c q = (q @ [c], Inr ())"

text \<open>
  The body of the streaming loop of \<^verbatim>\<open>_generate_stream\<close>. \<open>is_generating\<close> is the value
  of the flag that the loop reads when the line arrives (the Stop button clears it in
  the event loop). The first component of the result says whether the loop goes on.
\<close>

definition gui_stream_line ::
  "env \<Rightarrow> bool \<Rightarrow> bytes \<Rightarrow> json option \<Rightarrow> (ui_call list, bool \<times> json option) prog" where
  "gui_stream_line E is_generating line last_data =
     (if \<not> is_generating then ret (False, last_data)
      else if line = [] then ret (True, last_data)
      else
        seq (lift (decode E line)) (\<lambda>text.
        seq (lift (loads E text)) (\<lambda>data.
        seq (lift (py_get data ''response'' (JStr ''''))) (\<lambda>chunk.
        seq (if truthy chunk then after (AppendOutput (Text chunk)) else ret ()) (\<lambda>_.
        seq (lift (py_get data ''done'' (JBool False))) (\<lambda>done.
        ret (True, if truthy done then Some data else last_data)))))))"

text \<open>
  \<open>flag i\<close> is the value of \<^verbatim>\<open>self.is_generating\<close> read at the \<open>i\<close>-th line. The result
  says whether the iteration ran to its end (\<open>True\<close>) or was left by \<^verbatim>\<open>break\<close>.
\<close>

primrec gui_stream_loop ::
  "env \<Rightarrow> (nat \<Rightarrow> bool) \<Rightarrow> bytes list \<Rightarrow> nat \<Rightarrow> json option \<Rightarrow> (ui_call list, bool \<times> json option) prog" where
  "gui_stream_loop E flag [] = (\<lambda>i last_data. ret (True, last_data))"
| "gui_stream_loop E flag (line # rest) =
     (\<lambda>i last_data.
        seq (gui_stream_line E (flag i) line last_data) (\<lambda>r.
        if fst r then gui_stream_loop E flag rest (Suc i) (snd r) else ret (False, snd r)))"

definition gui_for_iter_lines ::
  "env \<Rightarrow> (nat \<Rightarrow> bool) \<Rightarrow> response \<Rightarrow> (ui_call list, json option) prog" where
  "gui_for_iter_lines E flag resp =
     seq (gui_stream_loop E flag (iter_lines resp) 0 None) (\<lambda>r.
     if fst r then (case iter_error resp of None \<Rightarrow> ret (snd r) | Some e \<Rightarrow> raise e)
     else ret (snd r))"

definition generate_stream :: "env \<Rightarrow> (nat \<Rightarrow> bool) \<Rightarrow> string \<Rightarrow> json \<Rightarrow> (ui_call list, unit) prog" where
  "generate_stream E flag u payload =
     seq (lift (post E \<lparr>url = u, json_payload = payload, stream_kw = True, timeout_kw = 300\<rparr>)) (\<lambda>resp.
     seq (lift (raise_for_status resp)) (\<lambda>_.
     seq (gui_for_iter_lines E flag resp) (\<lambda>last_data.
     seq (after (AppendOutput (Text (JStr newline)))) (\<lambda>_.
     case last_data of
       None \<Rightarrow> ret ()
     | Some d \<Rightarrow> if truthy d then after (UpdateStats d) else ret ()))))"

definition generate_non_stream :: "env \<Rightarrow> string \<Rightarrow> json \<Rightarrow> (ui_call list, unit) prog" where
  "generate_non_stream E u payload =
     seq (lift (post E \<lparr>url = u, json_payload = payload, stream_kw = False, timeout_kw = 300\<rparr>)) (\<lambda>resp.
     seq (lift (raise_for_status resp)) (\<lambda>_.
     seq (lift (resp_json E resp)) (\<lambda>data.
     seq (lift (py_get data ''response'' (JStr ''''))) (\<lambda>response_text.
     seq (after (AppendOutput (Text response_text))) (\<lambda>_.
     seq (after (AppendOutput (Text (JStr newline)))) (\<lambda>_.
     after (UpdateStats data)))))))"

text \<open>The Tk variables that the thread reads; an \<^verbatim>\<open>IntVar\<close> always holds an integer.\<close>

record gui_vars =
  model_var :: string
  gpu_var :: int
  stream_var :: bool

definition gui_payload :: "gui_vars \<Rightarrow> string \<Rightarrow> (string \<times> json) list" where
  "gui_payload vars prompt =
     (let model = model_var vars;
          num_gpu = Some (gpu_var vars);
          stream = stream_var vars;
          payload = [(''model'', JStr model), (''prompt'', JStr prompt), (''stream'', JBool stream)]
      in case num_gpu of
           None \<Rightarrow> payload
         | Some n \<Rightarrow> AList.update ''options'' (JObj [(''num_gpu'', JInt n)]) payload)"

text \<open>\<^verbatim>\<open>try: m finally: fin\<close>\<close>

definition try_finally :: "('s, 'a) prog \<Rightarrow> ('s, unit) prog \<Rightarrow> ('s, 'a) prog" where
  "try_finally m fin s =
     (case m s of (s', r) \<Rightarrow>
        (case fin s' of (s'', Inl e) \<Rightarrow> (s'', Inl e) | (s'', Inr _) \<Rightarrow> (s'', r)))"

text \<open>Every exception of the model is an \<^verbatim>\<open>Exception\<close>, so the handler takes them all.\<close>

definition generate_thread :: "env \<Rightarrow> (nat \<Rightarrow> bool) \<Rightarrow> gui_vars \<Rightarrow> string \<Rightarrow> (ui_call list, unit) prog" where
  "generate_thread E flag vars prompt =
     try_finally
       (try_except
          (let u = OLLAMA_HOST @ ''/api/generate'';
               payload = JObj (gui_payload vars prompt)
           in if stream_var vars then generate_stream E flag u payload
              else generate_non_stream E u payload)
          (\<lambda>e. seq (after (AppendOutput (ErrorText e))) (\<lambda>_. after (UpdateStatus ''Error'' ''red''))))
       (after GenerationComplete)"

subsection \<open>The event loop side\<close>

datatype btn_state = NORMAL | DISABLED

text \<open>
  A label holds the value that its text formats; \<open>None\<close> is the text with a dash that the
  label starts with (for the completion label: "No generation yet").
\<close>

record gui_state =
  output_text :: "out_text list"
  status_label :: "string \<times> string"
  is_generating :: bool
  generate_btn :: btn_state
  stop_btn :: btn_state
  stats_model_label :: "json option"
  stats_total_label :: "real option"
  stats_load_label :: "real option"
  stats_prompt_eval_label :: "real option"
  stats_gen_label :: "real option"
  stats_prompt_tokens_label :: "json option"
  stats_gen_tokens_label :: "json option"
  stats_total_tokens_label :: "json option"
  stats_prompt_speed_label :: "real option"
  stats_gen_speed_label :: "real option"
  stats_completion_label :: "json option"

definition config :: "(gui_state \<Rightarrow> gui_state) \<Rightarrow> (gui_state, unit) prog" where
  "config f s = (f s, Inr ())"

definition update_status :: "string \<Rightarrow> string \<Rightarrow> gui_state \<Rightarrow> gui_state" where
  "update_status message color s = s\<lparr>status_label := (message, color)\<rparr>"

definition append_output :: "out_text \<Rightarrow> gui_state \<Rightarrow> gui_state" where
  "append_output text s = s\<lparr>output_text := output_text s @ [text]\<rparr>"

definition generation_complete :: "gui_state \<Rightarrow> gui_state" where
  "generation_complete s =
     update_status ''Ready'' ''green''
       (s\<lparr>is_generating := False, generate_btn := NORMAL, stop_btn := DISABLED\<rparr>)"

definition update_stats :: "json \<Rightarrow> (gui_state, unit) prog" where
  "update_stats data =
     (if \<not> truthy data then ret ()
      else
        seq (lift (py_in ''model'' data)) (\<lambda>has_model.
        seq (if has_model
             then seq (lift (py_index data ''model'')) (\<lambda>m.
                  config (\<lambda>s. s\<lparr>stats_model_label := Some m\<rparr>))
             else ret ()) (\<lambda>_.
        seq (lift (get_seconds data ''total_duration'')) (\<lambda>total_duration.
        seq (lift (get_seconds data ''load_duration'')) (\<lambda>load_duration.
        seq (lift (get_seconds data ''prompt_eval_duration'')) (\<lambda>prompt_eval_duration.
        seq (lift (get_seconds data ''eval_duration'')) (\<lambda>eval_duration.
        seq (config (\<lambda>s. s\<lparr>stats_total_label := Some total_duration\<rparr>)) (\<lambda>_.
        seq (config (\<lambda>s. s\<lparr>stats_load_label := Some load_duration\<rparr>)) (\<lambda>_.
        seq (config (\<lambda>s. s\<lparr>stats_prompt_eval_label := Some prompt_eval_duration\<rparr>)) (\<lambda>_.
        seq (config (\<lambda>s. s\<lparr>stats_gen_label := Some eval_duration\<rparr>)) (\<lambda>_.
        seq (lift (py_get data ''prompt_eval_count'' (JInt 0))) (\<lambda>prompt_eval_count.
        seq (lift (py_get data ''eval_count'' (JInt 0))) (\<lambda>eval_count.
        seq (config (\<lambda>s. s\<lparr>stats_prompt_tokens_label := Some prompt_eval_count\<rparr>)) (\<lambda>_.
        seq (config (\<lambda>s. s\<lparr>stats_gen_tokens_label := Some eval_count\<rparr>)) (\<lambda>_.
        seq (lift (py_add prompt_eval_count eval_count)) (\<lambda>sum.
        seq (lift (py_format sum)) (\<lambda>total.
        seq (config (\<lambda>s. s\<lparr>stats_total_tokens_label := Some total\<rparr>)) (\<lambda>_.
        seq (if 0 < prompt_eval_duration
             then seq (lift (py_gt0 prompt_eval_count)) (\<lambda>pos.
                  if pos
                  then seq (lift (py_truediv prompt_eval_count prompt_eval_duration)) (\<lambda>prompt_speed.
                       config (\<lambda>s. s\<lparr>stats_prompt_speed_label := Some prompt_speed\<rparr>))
                  else config (\<lambda>s. s\<lparr>stats_prompt_speed_label := None\<rparr>))
             else config (\<lambda>s. s\<lparr>stats_prompt_speed_label := None\<rparr>)) (\<lambda>_.
        seq (if 0 < eval_duration
             then seq (lift (py_gt0 eval_count)) (\<lambda>pos.
                  if pos
                  then seq (lift (py_truediv eval_count eval_duration)) (\<lambda>gen_speed.
                       config (\<lambda>s. s\<lparr>stats_gen_speed_label := Some gen_speed\<rparr>))
                  else config (\<lambda>s. s\<lparr>stats_gen_speed_label := None\<rparr>))
             else config (\<lambda>s. s\<lparr>stats_gen_speed_label := None\<rparr>)) (\<lambda>_.
        seq (lift (py_in ''done_reason'' data)) (\<lambda>has_reason.
        if has_reason
        then seq (lift (py_index data ''done_reason'')) (\<lambda>r.
             config (\<lambda>s. s\<lparr>stats_completion_label := Some r\<rparr>))
        else ret ())))))))))))))))))))))"

text \<open>
  One call of the queue, run by the event loop. An exception that \<^verbatim>\<open>update_stats\<close> raises
  there is reported by Tk and the loop goes on; the labels set before it stay set.
\<close>

fun run_call :: "ui_call \<Rightarrow> gui_state \<Rightarrow> gui_state" where
  "run_call (AppendOutput text) s = append_output text s"
| "run_call (UpdateStatus message color) s = update_status message color s"
| "run_call (UpdateStats data) s = fst (update_stats data s)"
| "run_call GenerationComplete s = generation_complete s"

definition run_calls :: "ui_call list \<Rightarrow> gui_state \<Rightarrow> gui_state" where
  "run_calls calls s = fold run_call calls s"

section \<open>Notions used to state the properties\<close>

text \<open>What a line of the stream parses to, when it can be decoded and parsed.\<close>

definition parse_line :: "env \<Rightarrow> bytes \<Rightarrow> json option" where
  "parse_line E line =
     (case utf8_decode E line of
        None \<Rightarrow> None
      | Some text \<Rightarrow> (case json_loads E text of Inl e \<Rightarrow> None | Inr data \<Rightarrow> Some data))"

text \<open>The exception that decoding and parsing a line raises, when it raises one.\<close>

definition decode_failure :: "env \<Rightarrow> bytes \<Rightarrow> exn option" where
  "decode_failure E line =
     (case utf8_decode E line of
        None \<Rightarrow> Some UnicodeDecodeError
      | Some text \<Rightarrow> (case json_loads E text of Inl e \<Rightarrow> Some e | Inr data \<Rightarrow> None))"

text \<open>The \<^verbatim>\<open>response\<close> field of an object, the empty string when the field is absent.\<close>

definition response_field :: "json \<Rightarrow> string option" where
  "response_field data =
     (case data of
        JObj kv \<Rightarrow> (case dict_get kv ''response'' (JStr '''') of JStr c \<Rightarrow> Some c | _ \<Rightarrow> None)
      | _ \<Rightarrow> None)"

definition line_chunk :: "env \<Rightarrow> bytes \<Rightarrow> string option" where
  "line_chunk E line = (case parse_line E line of None \<Rightarrow> None | Some data \<Rightarrow> response_field data)"

text \<open>
  A well-formed line of a streaming response: empty, or the UTF-8 text of a JSON object
  whose \<^verbatim>\<open>response\<close> field, when there is one, is a string.
\<close>

definition well_formed_line :: "env \<Rightarrow> bytes \<Rightarrow> bool" where
  "well_formed_line E line =
     (if line = [] then True else (case line_chunk E line of None \<Rightarrow> False | Some c \<Rightarrow> True))"

text \<open>The \<^verbatim>\<open>response\<close> fields of the non-empty lines, in the order of the lines.\<close>

definition chunks :: "env \<Rightarrow> bytes list \<Rightarrow> string list" where
  "chunks E lines =
     map (\<lambda>line. case line_chunk E line of None \<Rightarrow> [] | Some c \<Rightarrow> c)
       (filter (\<lambda>line. line \<noteq> []) lines)"

text \<open>Standard output can encode every chunk of the lines.\<close>

definition encodable_chunks :: "env \<Rightarrow> bytes list \<Rightarrow> bool" where
  "encodable_chunks E lines = list_all (stdout_encodable E) (chunks E lines)"

definition is_done :: "json \<Rightarrow> bool" where
  "is_done data = (case py_get data ''done'' (JBool False) of Inl e \<Rightarrow> False | Inr v \<Rightarrow> truthy v)"

text \<open>The objects of a stream that say \<^verbatim>\<open>done\<close>, in the order of the lines.\<close>

definition done_objects :: "env \<Rightarrow> bytes list \<Rightarrow> json list" where
  "done_objects E lines =
     filter is_done (List.map_filter (parse_line E) (filter (\<lambda>line. line \<noteq> []) lines))"

definition last_done :: "env \<Rightarrow> bytes list \<Rightarrow> json option \<Rightarrow> json option" where
  "last_done E lines last_data =
     (if done_objects E lines = [] then last_data else Some (last (done_objects E lines)))"

text \<open>The calls that hand the non-empty chunks of a stream to the output widget.\<close>

definition shown_chunks :: "env \<Rightarrow> bytes list \<Rightarrow> ui_call list" where
  "shown_chunks E lines =
     map (\<lambda>c. AppendOutput (Text (JStr c))) (filter (\<lambda>c. c \<noteq> []) (chunks E lines))"

text \<open>The integer fields of a terminal record: the value, 0 when the field is absent.\<close>

definition int_or_absent :: "(string \<times> json) list \<Rightarrow> string \<Rightarrow> bool" where
  "int_or_absent kv k = (case map_of kv k of None \<Rightarrow> True | Some (JInt n) \<Rightarrow> True | Some _ \<Rightarrow> False)"

definition int_field :: "(string \<times> json) list \<Rightarrow> string \<Rightarrow> int" where
  "int_field kv k = (case map_of kv k of Some (JInt n) \<Rightarrow> n | _ \<Rightarrow> 0)"

text \<open>
  A terminal record in the range of a float: an object whose \<^verbatim>\<open>done\<close> is true, and whose
  durations and counts, where it carries them, are integers that convert to a float.
\<close>

definition integer_stats :: "(string \<times> json) list \<Rightarrow> bool" where
  "integer_stats kv =
     list_all (\<lambda>k. int_or_absent kv k \<and> float_range (int_field kv k))
       [''total_duration'', ''load_duration'', ''prompt_eval_duration'', ''eval_duration'',
        ''prompt_eval_count'', ''eval_count'']"


text \<open>
  The derived statistics in the words of the specification: a duration in seconds is the
  nanoseconds divided by 1e9; tokens per second is the count divided by the duration in
  seconds when both are positive, and unavailable otherwise.
\<close>

definition seconds :: "(string \<times> json) list \<Rightarrow> string \<Rightarrow> real" where
  "seconds kv k = real_of_int (int_field kv k) / 1000000000"

definition spec_tokens_per_sec :: "int \<Rightarrow> int \<Rightarrow> real option" where
  "spec_tokens_per_sec count duration_ns =
     (if 0 < count \<and> 0 < duration_ns
      then Some (real_of_int count / (real_of_int duration_ns / 1000000000))
      else None)"




text \<open>
  What the statistics of an object with integer fields look like: the lines for the error
  stream (the last part stops where \<^verbatim>\<open>len\<close> of the context fails), and the labels of the
  desktop client.
\<close>

definition speed_items :: "(real \<Rightarrow> err_item) \<Rightarrow> int \<Rightarrow> int \<Rightarrow> err_item list" where
  "speed_items mk count ns = (case spec_tokens_per_sec count ns of None \<Rightarrow> [] | Some v \<Rightarrow> [mk v])"

definition stats_lines :: "(string \<times> json) list \<Rightarrow> err_item list" where
  "stats_lines kv =
     [Rule, Title, Rule] @
     (case map_of kv ''model'' of None \<Rightarrow> [] | Some m \<Rightarrow> [ModelLine m]) @
     [TimingHeader, TotalDuration (seconds kv ''total_duration''),
      LoadDuration (seconds kv ''load_duration''),
      PromptEvalDuration (seconds kv ''prompt_eval_duration''),
      GenerationDuration (seconds kv ''eval_duration''),
      TokensHeader, PromptTokens (JInt (int_field kv ''prompt_eval_count'')),
      GeneratedTokens (JInt (int_field kv ''eval_count'')),
      TotalTokens (JInt (int_field kv ''prompt_eval_count'' + int_field kv ''eval_count''))] @
     speed_items PromptEvalSpeed (int_field kv ''prompt_eval_count'') (int_field kv ''prompt_eval_duration'') @
     speed_items GenerationSpeed (int_field kv ''eval_count'') (int_field kv ''eval_duration'') @
     (case map_of kv ''done_reason'' of None \<Rightarrow> [] | Some r \<Rightarrow> [CompletionReason r]) @
     (case map_of kv ''context'' of
        None \<Rightarrow> [Rule]
      | Some c \<Rightarrow> (case py_len c of Inl e \<Rightarrow> [] | Inr n \<Rightarrow> [ContextSize n, Rule]))"

definition stats_outcome :: "(string \<times> json) list \<Rightarrow> exn + unit" where
  "stats_outcome kv =
     (case map_of kv ''context'' of
        None \<Rightarrow> Inr ()
      | Some c \<Rightarrow> (case py_len c of Inl e \<Rightarrow> Inl e | Inr n \<Rightarrow> Inr ()))"



text \<open>The request that both clients send.\<close>

definition generate_request :: "(string \<times> json) list \<Rightarrow> bool \<Rightarrow> int \<Rightarrow> http_request" where
  "generate_request payload stream timeout =
     \<lparr>url = OLLAMA_HOST @ ''/api/generate'', json_payload = JObj payload,
      stream_kw = stream, timeout_kw = timeout\<rparr>"

definition http_error :: "response \<Rightarrow> bool" where
  "http_error r = (400 \<le> status_code r \<and> status_code r < 600)"

text \<open>The texts that a queue of calls appends to the output widget.\<close>

definition appended :: "ui_call list \<Rightarrow> out_text list" where
  "appended calls =
     List.map_filter (\<lambda>c. case c of AppendOutput t \<Rightarrow> Some t | _ \<Rightarrow> None) calls"

text \<open>The interface is ready for the next request.\<close>

definition ready :: "gui_state \<Rightarrow> bool" where
  "ready s =
     (status_label s = (''Ready'', ''green'') \<and> \<not> is_generating s \<and>
      generate_btn s = NORMAL \<and> stop_btn s = DISABLED)"

text \<open>
  A non-streaming request fails with an error of \<^verbatim>\<open>requests\<close>: the connection fails or
  times out, the status is an error, or \<^verbatim>\<open>Response.json()\<close> rejects the body as not JSON.
\<close>

definition request_fails :: "env \<Rightarrow> http_request \<Rightarrow> bool" where
  "request_fails E req =
     (case requests_post E req of
        PostRaises e \<Rightarrow> is_RequestException e
      | PostReturns resp \<Rightarrow>
          (if http_error resp then True
           else (case response_json E resp of
                   Inl e \<Rightarrow> is_RequestException e
                 | Inr data \<Rightarrow> False)))"


definition keeps :: "('s \<Rightarrow> 'b) \<Rightarrow> ('s, 'a) prog \<Rightarrow> bool" where
  "keeps part m = (\<forall>s. part (fst (m s)) = part s)"

subsection \<open>A concrete environment\<close>

text \<open>
  A small environment to run the clients on. \<open>sample_decode\<close> is strict UTF-8 decoding on
  the byte strings used here: ASCII text decodes to itself, and a string with a byte from
  0x80 on (here only the single byte 0xFF) is taken as not decodable. \<open>sample_loads\<close> is
  \<^verbatim>\<open>json.loads\<close> on the listed texts; every other text used here is not JSON.
  \<open>sample_encodable\<close> is a standard output that encodes ASCII text. The text of
  \<open>line_surrogate\<close> is the lone surrogate U+D83D, which no encoding of standard output
  accepts; it is kept here as three bytes from 0x80 on.
\<close>

definition sample_decode :: "bytes \<Rightarrow> string option" where
  "sample_decode b = (if list_all (\<lambda>c. (of_char c :: nat) < 128) b then Some b else None)"

definition line_a :: bytes where
  \<open>line_a = ''{"response":"a","done":false}''\<close>

definition line_a_done :: bytes where
  \<open>line_a_done = ''{"response":"a","done":true}''\<close>

definition line_b :: bytes where
  \<open>line_b = ''{"response":"b"}''\<close>

definition line_b_done :: bytes where
  \<open>line_b_done = ''{"response":"b","done":true,"eval_count":0}''\<close>

definition body_hello :: bytes where
  \<open>body_hello = ''{"response":"hello","done":true,"eval_count":2,"eval_duration":2000000000}''\<close>

definition body_empty_object :: bytes where
  \<open>body_empty_object = ''{}''\<close>

definition not_json :: bytes where
  \<open>not_json = ''not json''\<close>

definition not_utf8 :: bytes where
  \<open>not_utf8 = [CHR 0xFF]\<close>

definition hello_record :: "(string \<times> json) list" where
  "hello_record =
     [(''response'', JStr ''hello''), (''done'', JBool True), (''eval_count'', JInt 2),
      (''eval_duration'', JInt 2000000000)]"

definition line_surrogate :: bytes where
  \<open>line_surrogate = ''{"response":"'' @ [CHR 0x5C] @ ''ud83d"}''\<close>

definition surrogate :: string where
  "surrogate = [CHR 0xED, CHR 0xA0, CHR 0xBD]"

definition body_null :: bytes where
  \<open>body_null = ''{"response":null}''\<close>

definition body_string_count :: bytes where
  \<open>body_string_count = ''{"response":"hello","eval_count":"2"}''\<close>

definition sample_table :: "(string \<times> json) list" where
  "sample_table =
     [(line_a, JObj [(''response'', JStr ''a''), (''done'', JBool False)]),
      (line_a_done, JObj [(''response'', JStr ''a''), (''done'', JBool True)]),
      (line_b, JObj [(''response'', JStr ''b'')]),
      (line_b_done, JObj [(''response'', JStr ''b''), (''done'', JBool True), (''eval_count'', JInt 0)]),
      (body_hello, JObj hello_record),
      (body_empty_object, JObj []),
      (line_surrogate, JObj [(''response'', JStr surrogate)]),
      (body_null, JObj [(''response'', JNull)]),
      (body_string_count, JObj [(''response'', JStr ''hello''), (''eval_count'', JStr ''2'')])]"

definition sample_loads :: "string \<Rightarrow> exn + json" where
  "sample_loads s = (case map_of sample_table s of None \<Rightarrow> Inl JSONDecodeError | Some v \<Rightarrow> Inr v)"

definition sample_body_json :: "response \<Rightarrow> exn + json" where
  "sample_body_json r =
     (case map_of sample_table (content r) of
        None \<Rightarrow> Inl RequestsJSONDecodeError
      | Some v \<Rightarrow> Inr v)"

definition sample_encodable :: "string \<Rightarrow> bool" where
  "sample_encodable s = list_all (\<lambda>c. (of_char c :: nat) < 128) s"

definition sample_env :: "post_result \<Rightarrow> env" where
  "sample_env answer =
     \<lparr>utf8_decode = sample_decode, json_loads = sample_loads,
      response_json = sample_body_json,
      requests_post = (\<lambda>req. answer),
      stdout_encodable = sample_encodable\<rparr>"



definition stream_response :: "bytes list \<Rightarrow> post_result" where
  "stream_response lines =
     PostReturns \<lparr>status_code = 200, iter_lines = lines, iter_error = None, content = concat lines\<rparr>"

definition body_response :: "bytes \<Rightarrow> post_result" where
  "body_response body =
     PostReturns \<lparr>status_code = 200, iter_lines = [body], iter_error = None, content = body\<rparr>"

definition io0 :: cli_io where
  "io0 = \<lparr>stdout = [], stderr = []\<rparr>"


definition vars0 :: "bool \<Rightarrow> gui_vars" where
  "vars0 stream = \<lparr>model_var = ''x'', gpu_var = 99, stream_var = stream\<rparr>"

section \<open>Laws of sequencing\<close>

lemma seq_ret [simp]: "seq (ret a) f = f a"
  by (rule ext) (simp add: seq_def ret_def)

lemma seq_raise [simp]: "seq (raise e) f = raise e"
  by (rule ext) (simp add: seq_def raise_def)

lemma lift_Inr [simp]: "lift (Inr a) = ret a"
  by (rule ext) (simp add: lift_def ret_def)

lemma lift_Inl [simp]: "lift (Inl e) = raise e"
  by (rule ext) (simp add: lift_def raise_def)

lemma seq_eprint [simp]: "seq (eprint x) f s = f () (s\<lparr>stderr := stderr s @ [x]\<rparr>)"
  by (simp add: seq_def eprint_def)

lemma seq_print_out [simp]:
  "stdout_encodable E x \<Longrightarrow> seq (print_out E x) f s = f () (s\<lparr>stdout := stdout s @ [x]\<rparr>)"
  by (simp add: seq_def print_out_def)

lemma print_out_not_encodable:
  "\<not> stdout_encodable E x \<Longrightarrow> print_out E x s = (s, Inl UnicodeEncodeError)"
  by (simp add: print_out_def)

lemma seq_after [simp]: "seq (after c) f q = f () (q @ [c])"
  by (simp add: seq_def after_def)

lemma seq_config [simp]: "seq (config g) f s = f () (g s)"
  by (simp add: seq_def config_def)

lemma seq_assoc: "seq (seq m f) g = seq m (\<lambda>a. seq (f a) g)"
  by (rule ext) (simp add: seq_def split: prod.splits sum.splits)

section \<open>Integers within the limits\<close>

lemma float_range_less: "float_range n \<Longrightarrow> \<bar>n\<bar> < 2 ^ 1024"
proof -
  assume "float_range n"
  then have "\<bar>n\<bar> < 2 ^ 1024 - 2 ^ 970" by (simp only: float_range_def)
  moreover have "(0::int) \<le> 2 ^ 970" by (rule zero_le_power) simp
  ultimately show ?thesis by linarith
qed

lemma float_range_int64: "\<bar>n\<bar> < 2 ^ 63 \<Longrightarrow> float_range n"
  by (simp add: float_range_def)

lemma float_range_0 [simp]: "float_range 0"
  by (simp add: float_range_def)

lemma digits_le: "n < 10 ^ k \<Longrightarrow> 0 < k \<Longrightarrow> digits n \<le> k"
proof (induction k arbitrary: n)
  case 0
  then show ?case by simp
next
  case (Suc k)
  show ?case
  proof (cases "n < 10")
    case True
    then show ?thesis by (simp add: digits.simps [of n])
  next
    case False
    with Suc.prems have k: "0 < k" by (cases k) auto
    from Suc.prems have d: "n div 10 < 10 ^ k" by (simp add: less_mult_imp_div_less mult.commute)
    from d k have "digits (n div 10) \<le> k" by (rule Suc.IH)
    with False show ?thesis by (simp add: digits.simps [of n])
  qed
qed

lemma digits_less_power2:
  assumes "n < 2 ^ k" "0 < k"
  shows "digits n \<le> k"
proof -
  have "(2::nat) ^ k \<le> 10 ^ k" by (rule power_mono) simp_all
  with assms(1) have "n < 10 ^ k" by linarith
  then show ?thesis using assms(2) by (rule digits_le)
qed

lemma py_format_sum:
  assumes "float_range a" "float_range b"
  shows "py_format (JInt (a + b)) = Inr (JInt (a + b))"
proof -
  have "\<bar>a\<bar> < 2 ^ 1024" "\<bar>b\<bar> < 2 ^ 1024"
    using assms by (auto dest: float_range_less)
  then have "\<bar>a + b\<bar> < 2 ^ 1024 + 2 ^ 1024" by linarith
  then have "\<bar>a + b\<bar> < 2 ^ Suc 1024" by (simp only: power_Suc mult_2)
  then have "nat \<bar>a + b\<bar> < 2 ^ Suc 1024"
    by (metis nat_less_numeral_power_cancel_iff)
  then have "digits (nat \<bar>a + b\<bar>) \<le> Suc 1024"
    by (rule digits_less_power2) simp
  then show ?thesis by (simp add: py_format_def)
qed

lemma py_format_other [simp]:
  "py_format JNull = Inr JNull" "py_format (JBool b) = Inr (JBool b)"
  "py_format (JStr s) = Inr (JStr s)" "py_format (JArr xs) = Inr (JArr xs)"
  "py_format (JObj kv) = Inr (JObj kv)"
  by (simp_all add: py_format_def)

section \<open>The streaming loops on well-formed lines\<close>

lemma stream_line_blank [simp]: "stream_line E [] last_data = ret last_data"
  by (simp add: stream_line_def)

lemma line_chunk_SomeD:
  assumes "line_chunk E line = Some c"
  obtains t kv where "utf8_decode E line = Some t" "json_loads E t = Inr (JObj kv)"
    "dict_get kv ''response'' (JStr '''') = JStr c" "parse_line E line = Some (JObj kv)"
  using assms
  by (auto simp: line_chunk_def parse_line_def response_field_def
      split: option.splits sum.splits json.splits)

lemma is_done_JObj: "is_done (JObj kv) = truthy (dict_get kv ''done'' (JBool False))"
  by (simp add: is_done_def)

lemma stream_line_chunk:
  assumes "line \<noteq> []" "line_chunk E line = Some c" "parse_line E line = Some data"
    and "stdout_encodable E c"
  shows "stream_line E line last_data s =
           (s\<lparr>stdout := stdout s @ [c]\<rparr>, Inr (if is_done data then Some data else last_data))"
proof -
  from assms(2) obtain t kv where
    d: "utf8_decode E line = Some t" "json_loads E t = Inr (JObj kv)"
       "dict_get kv ''response'' (JStr '''') = JStr c" "parse_line E line = Some (JObj kv)"
    by (rule line_chunk_SomeD)
  with assms(3) have data: "data = JObj kv" by simp
  show ?thesis
    using assms(1,4) d(1,2,3)
    by (simp add: stream_line_def decode_def loads_def stdout_write_def data is_done_JObj ret_def)
qed

lemma stream_line_not_encodable:
  assumes "line \<noteq> []" "line_chunk E line = Some c" "\<not> stdout_encodable E c"
  shows "stream_line E line last_data s = (s, Inl UnicodeEncodeError)"
proof -
  from assms(2) obtain t kv where
    d: "utf8_decode E line = Some t" "json_loads E t = Inr (JObj kv)"
       "dict_get kv ''response'' (JStr '''') = JStr c" "parse_line E line = Some (JObj kv)"
    by (rule line_chunk_SomeD)
  show ?thesis
    using assms(1,3) d(1,2,3)
    by (simp add: stream_line_def decode_def loads_def stdout_write_def seq_def
        print_out_not_encodable)
qed


lemma chunks_Nil [simp]: "chunks E [] = []"
  by (simp add: chunks_def)

lemma chunks_Cons:
  "chunks E (line # rest) =
     (if line = [] then chunks E rest
      else (case line_chunk E line of None \<Rightarrow> [] | Some c \<Rightarrow> c) # chunks E rest)"
  by (simp add: chunks_def)

lemma chunks_append [simp]: "chunks E (xs @ ys) = chunks E xs @ chunks E ys"
  by (simp add: chunks_def)

lemma encodable_chunks_Nil [simp]: "encodable_chunks E []"
  by (simp add: encodable_chunks_def)

lemma encodable_chunks_append [simp]:
  "encodable_chunks E (xs @ ys) \<longleftrightarrow> encodable_chunks E xs \<and> encodable_chunks E ys"
  by (simp add: encodable_chunks_def)

lemma done_objects_Nil [simp]: "done_objects E [] = []"
  by (simp add: done_objects_def)

lemma done_objects_Cons:
  "done_objects E (line # rest) =
     (if line = [] then done_objects E rest
      else (case parse_line E line of
              None \<Rightarrow> done_objects E rest
            | Some data \<Rightarrow> if is_done data then data # done_objects E rest else done_objects E rest))"
  by (simp add: done_objects_def split: option.splits)

lemma last_done_Nil [simp]: "last_done E [] last_data = last_data"
  by (simp add: last_done_def)

lemma last_done_Cons:
  "last_done E (line # rest) last_data =
     last_done E rest
       (if line = [] then last_data
        else (case parse_line E line of
                None \<Rightarrow> last_data
              | Some data \<Rightarrow> if is_done data then Some data else last_data))"
  by (simp add: last_done_def done_objects_Cons split: option.splits)

lemma stream_loop_well_formed:
  assumes "list_all (well_formed_line E) lines" "encodable_chunks E lines"
  shows "stream_loop E lines last_data s =
           (s\<lparr>stdout := stdout s @ chunks E lines\<rparr>, Inr (last_done E lines last_data))"
  using assms
proof (induction lines arbitrary: last_data s)
  case Nil
  show ?case by (simp add: ret_def)
next
  case (Cons line rest)
  show ?case
  proof (cases "line = []")
    case True
    with Cons show ?thesis by (simp add: chunks_Cons last_done_Cons encodable_chunks_def)
  next
    case False
    with Cons.prems obtain c where c: "line_chunk E line = Some c"
      by (auto simp: well_formed_line_def split: option.splits)
    then obtain data where data: "parse_line E line = Some data"
      by (auto simp: line_chunk_def split: option.splits)
    from Cons.prems have rest: "list_all (well_formed_line E) rest" by simp
    from Cons.prems False c have enc: "stdout_encodable E c" "encodable_chunks E rest"
      by (simp_all add: encodable_chunks_def chunks_Cons)
    show ?thesis
      using False c data enc(1) Cons.IH [OF rest enc(2)]
      by (simp add: seq_def stream_line_chunk chunks_Cons last_done_Cons)
  qed
qed

lemma stream_loop_append:
  "stream_loop E (xs @ ys) last_data =
     seq (stream_loop E xs last_data) (\<lambda>last_data'. stream_loop E ys last_data')"
  by (induction xs arbitrary: last_data) (simp_all add: seq_assoc)



lemma gui_stream_line_blank [simp]: "gui_stream_line E True [] last_data = ret (True, last_data)"
  by (simp add: gui_stream_line_def)

lemma gui_stream_line_stopped [simp]: "gui_stream_line E False line last_data = ret (False, last_data)"
  by (simp add: gui_stream_line_def)

lemma gui_stream_line_chunk:
  assumes "line \<noteq> []" "line_chunk E line = Some c" "parse_line E line = Some data"
  shows "gui_stream_line E True line last_data q =
           (q @ (if c = [] then [] else [AppendOutput (Text (JStr c))]),
            Inr (True, if is_done data then Some data else last_data))"
proof -
  from assms(2) obtain t kv where
    d: "utf8_decode E line = Some t" "json_loads E t = Inr (JObj kv)"
       "dict_get kv ''response'' (JStr '''') = JStr c" "parse_line E line = Some (JObj kv)"
    by (rule line_chunk_SomeD)
  with assms(3) have data: "data = JObj kv" by simp
  show ?thesis
    using assms(1) d(1,2,3)
    by (simp add: gui_stream_line_def decode_def loads_def data is_done_JObj ret_def)
qed

lemma gui_stream_line_decode_failure:
  assumes "line \<noteq> []" "decode_failure E line = Some e"
  shows "gui_stream_line E True line last_data q = (q, Inl e)"
  using assms
  by (auto simp: gui_stream_line_def decode_failure_def decode_def loads_def raise_def
      split: option.splits sum.splits)

lemma gui_stream_loop_well_formed:
  assumes "list_all (well_formed_line E) lines" "\<And>i. flag i"
  shows "gui_stream_loop E flag lines i last_data q =
           (q @ shown_chunks E lines, Inr (True, last_done E lines last_data))"
  using assms(1)
proof (induction lines arbitrary: i last_data q)
  case Nil
  show ?case by (simp add: ret_def shown_chunks_def)
next
  case (Cons line rest)
  have flag: "flag i" by (rule assms(2))
  show ?case
  proof (cases "line = []")
    case True
    with Cons flag show ?thesis by (simp add: chunks_Cons last_done_Cons shown_chunks_def)
  next
    case False
    with Cons.prems obtain c where c: "line_chunk E line = Some c"
      by (auto simp: well_formed_line_def split: option.splits)
    then obtain data where data: "parse_line E line = Some data"
      by (auto simp: line_chunk_def split: option.splits)
    from Cons.prems have rest: "list_all (well_formed_line E) rest" by simp
    show ?thesis
      using False c data flag Cons.IH [OF rest]
      by (simp add: seq_def gui_stream_line_chunk chunks_Cons last_done_Cons shown_chunks_def)
  qed
qed

section \<open>The calls to the server\<close>

lemma raise_for_status_eq:
  "raise_for_status r = (if http_error r then Inl (HTTPError (status_code r)) else Inr ())"
  by (simp add: raise_for_status_def http_error_def)


lemma generate_non_streaming:
  assumes "requests_post E (generate_request (build_payload prompt model False num_gpu) False timeout) = PostReturns resp"
    and "\<not> http_error resp" and "response_json E resp = Inr data"
  shows "generate E prompt model False timeout num_gpu verbose =
           try_except
             (seq (if verbose then print_verbose_stats data else ret ()) (\<lambda>_.
              lift (py_get data ''response'' (JStr ''''))))
             generate_except"
  using assms
  by (simp add: generate_def generate_try_def generate_request_def post_def raise_for_status_eq Let_def resp_json_def)

lemma generate_post_raises:
  assumes "requests_post E (generate_request (build_payload prompt model stream num_gpu) stream timeout) = PostRaises e"
  shows "generate E prompt model stream timeout num_gpu verbose s = generate_except e s"
  using assms
  by (cases stream)
    (simp_all add: generate_def generate_try_def generate_request_def post_def try_except_def
      raise_def Let_def)

lemma generate_http_error:
  assumes "requests_post E (generate_request (build_payload prompt model stream num_gpu) stream timeout) = PostReturns resp"
    and "http_error resp"
  shows "generate E prompt model stream timeout num_gpu verbose s =
           (s\<lparr>stderr := stderr s @ [ErrUnreachable (HTTPError (status_code resp))]\<rparr>, Inr JNull)"
  using assms
  by (cases stream)
    (simp_all add: generate_def generate_try_def generate_request_def post_def try_except_def
      raise_def raise_for_status_eq Let_def generate_except_def ret_def)

lemma generate_body_raises:
  assumes "requests_post E (generate_request (build_payload prompt model False num_gpu) False timeout) = PostReturns resp"
    and "\<not> http_error resp" and "response_json E resp = Inl e"
  shows "generate E prompt model False timeout num_gpu verbose s = generate_except e s"
  using assms
  by (simp add: generate_def generate_try_def generate_request_def post_def try_except_def raise_def
      raise_for_status_eq Let_def resp_json_def lift_def seq_def)



section \<open>What a computation leaves alone\<close>

lemma keeps_seq: "keeps part m \<Longrightarrow> (\<And>a. keeps part (f a)) \<Longrightarrow> keeps part (seq m f)"
  by (auto simp: keeps_def seq_def split: prod.splits sum.splits) (metis fst_conv)+

lemma keeps_ret: "keeps part (ret a)"
  by (simp add: keeps_def ret_def)

lemma keeps_raise: "keeps part (raise e)"
  by (simp add: keeps_def raise_def)

lemma keeps_lift: "keeps part (lift r)"
  by (simp add: keeps_def lift_def)

lemma keeps_if: "keeps part a \<Longrightarrow> keeps part b \<Longrightarrow> keeps part (if c then a else b)"
  by simp

lemma keeps_stdout_eprint: "keeps stdout (eprint x)"
  by (simp add: keeps_def eprint_def)

lemma keeps_config: "(\<And>s. part (g s) = part s) \<Longrightarrow> keeps part (config g)"
  by (simp add: keeps_def config_def)

lemmas keeps_intros =
  keeps_seq keeps_ret keeps_raise keeps_lift keeps_if keeps_stdout_eprint keeps_config

lemma keeps_stdout_print_verbose_stats: "keeps stdout (print_verbose_stats data)"
  unfolding print_verbose_stats_def by (intro keeps_intros)



lemma keepsD: "keeps part m \<Longrightarrow> part (fst (m s)) = part s"
  by (simp add: keeps_def)



















section \<open>The statistics of a record with integer fields\<close>

lemma dict_get_int:
  "int_or_absent kv k \<Longrightarrow> dict_get kv k (JInt 0) = JInt (int_field kv k)"
  by (auto simp: int_or_absent_def dict_get_def int_field_def split: option.splits json.splits)

lemma get_seconds_int:
  "int_or_absent kv k \<Longrightarrow> float_range (int_field kv k) \<Longrightarrow>
   get_seconds (JObj kv) k = Inr (seconds kv k)"
  by (simp add: get_seconds_def dict_get_int py_truediv_def seconds_def)

lemma integer_statsD:
  assumes "integer_stats kv"
  shows "int_or_absent kv ''total_duration''" "int_or_absent kv ''load_duration''"
    "int_or_absent kv ''prompt_eval_duration''" "int_or_absent kv ''eval_duration''"
    "int_or_absent kv ''prompt_eval_count''" "int_or_absent kv ''eval_count''"
    "float_range (int_field kv ''total_duration'')" "float_range (int_field kv ''load_duration'')"
    "float_range (int_field kv ''prompt_eval_duration'')"
    "float_range (int_field kv ''eval_duration'')"
    "float_range (int_field kv ''prompt_eval_count'')" "float_range (int_field kv ''eval_count'')"
  using assms by (simp_all add: integer_stats_def)

lemma seconds_pos [simp]: "0 < seconds kv k \<longleftrightarrow> 0 < int_field kv k"
  by (simp add: seconds_def)

lemma py_add_int [simp]: "py_add (JInt a) (JInt b) = Inr (JInt (a + b))"
  by (simp add: py_add_def)

lemma py_gt0_int [simp]: "py_gt0 (JInt a) = Inr (0 < a)"
  by (simp add: py_gt0_def)

lemma py_truediv_int [simp]:
  "float_range a \<Longrightarrow> d \<noteq> 0 \<Longrightarrow> py_truediv (JInt a) d = Inr (real_of_int a / d)"
  by (simp add: py_truediv_def)

lemma seq_if: "seq (if c then a else b) f = (if c then seq a f else seq b f)"
  by simp

lemma print_verbose_stats_integer:
  assumes "integer_stats kv"
  shows "print_verbose_stats (JObj kv) s = (s\<lparr>stderr := stderr s @ stats_lines kv\<rparr>, stats_outcome kv)"
  using integer_statsD [OF assms]
  apply (simp add: print_verbose_stats_def get_seconds_int dict_get_int speed_items_def seq_if
      py_format_sum
      spec_tokens_per_sec_def seconds_def stats_lines_def stats_outcome_def
      split: option.splits sum.splits)
  apply (simp add: eprint_def raise_def)
  done


lemma update_stats_empty: "update_stats (JObj []) s = (s, Inr ())"
  by (simp add: update_stats_def ret_def)






section \<open>A whole well-formed stream\<close>










lemma appended_simps [simp]:
  "appended [] = []"
  "appended (AppendOutput t # cs) = t # appended cs"
  "appended (UpdateStatus m c # cs) = appended cs"
  "appended (UpdateStats d # cs) = appended cs"
  "appended (GenerationComplete # cs) = appended cs"
  by (simp_all add: appended_def List.map_filter_simps)


lemma appended_shown_chunks [simp]:
  "appended (shown_chunks E lines) = map (\<lambda>c. Text (JStr c)) (filter (\<lambda>c. c \<noteq> []) (chunks E lines))"
  by (simp add: shown_chunks_def appended_def List.map_filter_def comp_def)



lemma ready_generation_complete: "ready (generation_complete s)"
  by (simp add: ready_def generation_complete_def update_status_def)

lemma run_calls_snoc: "run_calls (calls @ [c]) s = run_call c (run_calls calls s)"
  by (simp add: run_calls_def)

section \<open>What the command-line client returns\<close>

lemma seq_returns:
  assumes "snd (seq m f s) = Inr v"
  obtains a s' where "m s = (s', Inr a)" "snd (f a s') = Inr v"
  using assms by (auto simp: seq_def split: prod.splits sum.splits)

lemma generate_except_returns: "snd (generate_except e s) = Inr v \<Longrightarrow> v = JNull"
  by (auto simp: generate_except_def ret_def raise_def split: if_splits)

lemma try_except_returns:
  assumes "snd (try_except m generate_except s) = Inr v"
  shows "snd (m s) = Inr v \<or> v = JNull"
  using assms
  by (auto simp: try_except_def split: prod.splits sum.splits dest: generate_except_returns)

lemma generate_try_streaming_returns:
  assumes "snd (generate_try E u payload True timeout verbose s) = Inr v"
  shows "v = JNull"
  using assms unfolding generate_try_def
  by (auto elim!: seq_returns simp: ret_def)

lemma streaming_returns_None:
  assumes "snd (generate E prompt model True timeout num_gpu verbose s) = Inr v"
  shows "v = JNull"
  using assms try_except_returns generate_try_streaming_returns
  unfolding generate_def Let_def by blast

lemma seq_lift:
  "seq (lift r) f s = (case r of Inl e \<Rightarrow> (s, Inl e) | Inr a \<Rightarrow> f a s)"
  by (simp add: seq_def lift_def split: sum.splits)

lemma generate_try_non_streaming_returns:
  assumes "snd (generate_try E u payload False timeout verbose s) = Inr v"
  obtains resp kv where
    "requests_post E \<lparr>url = u, json_payload = payload, stream_kw = False, timeout_kw = timeout\<rparr> = PostReturns resp"
    "\<not> http_error resp" "response_json E resp = Inr (JObj kv)"
    "dict_get kv ''response'' (JStr '''') = v"
proof -
  from assms obtain resp data where
    a: "requests_post E \<lparr>url = u, json_payload = payload, stream_kw = False, timeout_kw = timeout\<rparr> = PostReturns resp"
      "\<not> http_error resp" "response_json E resp = Inr data"
    and r: "snd (seq (if verbose then print_verbose_stats data else ret ()) (\<lambda>_.
             lift (py_get data ''response'' (JStr ''''))) s) = Inr v"
    by (auto simp: generate_try_def seq_lift post_def raise_for_status_eq resp_json_def raise_def
        split: post_result.splits if_splits sum.splits)
  from r have "py_get data ''response'' (JStr '''') = Inr v"
    by (rule seq_returns) (simp add: lift_def)
  then obtain kv where "data = JObj kv" "dict_get kv ''response'' (JStr '''') = v"
    by (cases data) auto
  with a that show ?thesis by blast
qed

lemma string_returned_only_on_success:
  assumes "snd (generate E prompt model stream timeout num_gpu verbose s) = Inr (JStr x)"
  shows "\<not> stream \<and>
         (\<exists>resp kv. requests_post E (generate_request (build_payload prompt model False num_gpu) False timeout) = PostReturns resp \<and>
            \<not> http_error resp \<and> response_json E resp = Inr (JObj kv) \<and>
            dict_get kv ''response'' (JStr '''') = JStr x)"
proof (cases stream)
  case True
  with assms have "snd (generate E prompt model True timeout num_gpu verbose s) = Inr (JStr x)"
    by simp
  then have "JStr x = JNull" by (rule streaming_returns_None)
  then show ?thesis by simp
next
  case False
  with assms have "snd (try_except (generate_try E (OLLAMA_HOST @ ''/api/generate'')
      (JObj (build_payload prompt model False num_gpu)) False timeout verbose) generate_except s) =
      Inr (JStr x)"
    by (simp add: generate_def Let_def)
  then have "snd (generate_try E (OLLAMA_HOST @ ''/api/generate'')
      (JObj (build_payload prompt model False num_gpu)) False timeout verbose s) = Inr (JStr x)"
    by (auto dest: try_except_returns)
  then show ?thesis
    using False by (elim generate_try_non_streaming_returns) (auto simp: generate_request_def)
qed

lemma failed_request_returns_None:
  assumes "request_fails E (generate_request (build_payload prompt model False num_gpu) False timeout)"
  shows "snd (generate E prompt model False timeout num_gpu verbose s) = Inr JNull"
proof (cases "requests_post E (generate_request (build_payload prompt model False num_gpu) False timeout)")
  case (PostRaises e)
  with assms have "is_RequestException e" by (simp add: request_fails_def)
  then show ?thesis
    by (simp add: generate_post_raises [OF PostRaises] generate_except_def ret_def)
next
  case (PostReturns resp)
  show ?thesis
  proof (cases "http_error resp")
    case True
    then show ?thesis by (simp add: generate_http_error [OF PostReturns])
  next
    case False
    with assms PostReturns obtain e where "response_json E resp = Inl e" "is_RequestException e"
      by (auto simp: request_fails_def split: sum.splits)
    then show ?thesis
      by (simp add: generate_body_raises [OF PostReturns False] generate_except_def ret_def)
  qed
qed

lemma print_verbose_stats_complete:
  assumes "integer_stats kv" "stats_outcome kv = Inr ()"
  shows "print_verbose_stats (JObj kv) s = (s\<lparr>stderr := stderr s @ stats_lines kv\<rparr>, Inr ())"
  using assms by (simp add: print_verbose_stats_integer)

lemma non_streaming_success:
  assumes "requests_post E (generate_request (build_payload prompt model False num_gpu) False timeout) = PostReturns resp"
    and "\<not> http_error resp" and "response_json E resp = Inr (JObj kv)"
    and "verbose \<longrightarrow> snd (print_verbose_stats (JObj kv) s) = Inr ()"
  shows "snd (generate E prompt model False timeout num_gpu verbose s) =
           Inr (dict_get kv ''response'' (JStr ''''))
         \<and> stdout (fst (generate E prompt model False timeout num_gpu verbose s)) = stdout s"
proof (cases verbose)
  case False
  then show ?thesis
    by (simp add: generate_non_streaming [OF assms(1,2,3)] try_except_def seq_def ret_def lift_def)
next
  case True
  with assms(4) obtain s' where p: "print_verbose_stats (JObj kv) s = (s', Inr ())"
    by (cases "print_verbose_stats (JObj kv) s") auto
  have "stdout (fst (print_verbose_stats (JObj kv) s)) = stdout s"
    by (rule keepsD [OF keeps_stdout_print_verbose_stats])
  with p have "stdout s' = stdout s" by simp
  with True p show ?thesis
    by (simp add: generate_non_streaming [OF assms(1,2,3)] try_except_def seq_def lift_def ret_def)
qed

lemma non_streaming_stats_raise:
  assumes "requests_post E (generate_request (build_payload prompt model False num_gpu) False timeout) = PostReturns resp"
    and "\<not> http_error resp" and "response_json E resp = Inr data"
    and "print_verbose_stats data s = (s', Inl e)"
  shows "generate E prompt model False timeout num_gpu True s = generate_except e s'"
  using assms(4)
  by (simp add: generate_non_streaming [OF assms(1,2,3)] try_except_def seq_def)

section \<open>A stream with a line that does not parse\<close>

lemma last_done_append:
  "last_done E (xs @ ys) last_data = last_done E ys (last_done E xs last_data)"
  by (induction xs arbitrary: last_data) (simp_all add: last_done_Cons)

lemma shown_chunks_append [simp]:
  "shown_chunks E (xs @ ys) = shown_chunks E xs @ shown_chunks E ys"
  by (simp add: shown_chunks_def)


lemma stream_loop_stops_at_unencodable:
  assumes "list_all (well_formed_line E) pre" "encodable_chunks E pre"
    and "line \<noteq> []" "line_chunk E line = Some c" "\<not> stdout_encodable E c"
  shows "stream_loop E (pre @ line # rest) last_data s =
           (s\<lparr>stdout := stdout s @ chunks E pre\<rparr>, Inl UnicodeEncodeError)"
  using assms(3,4,5)
  by (simp add: stream_loop_append seq_def stream_loop_well_formed [OF assms(1,2)]
      stream_line_not_encodable)


section \<open>The boundary of a call\<close>

lemma generate_raises_only_unhandled:
  assumes "snd (generate E prompt model stream timeout num_gpu verbose s) = Inl e"
  shows "\<not> is_RequestException e \<and> \<not> is_JSONDecodeError e"
  using assms
  by (auto simp: generate_def Let_def try_except_def generate_except_def ret_def raise_def
      split: prod.splits sum.splits if_splits)

lemma generate_thread_result:
  "snd (generate_thread E flag vars prompt q) = Inr () \<and>
   (\<exists>calls. fst (generate_thread E flag vars prompt q) = calls @ [GenerationComplete])"
  by (auto simp: generate_thread_def try_finally_def try_except_def after_def
      split: prod.splits sum.splits)

lemma generate_thread_ready: "ready (run_calls (fst (generate_thread E flag vars prompt q)) g)"
proof -
  obtain calls where "fst (generate_thread E flag vars prompt q) = calls @ [GenerationComplete]"
    using generate_thread_result by blast
  then show ?thesis
    by (simp add: run_calls_snoc ready_generation_complete)
qed

lemma generate_thread_post_raises:
  assumes "requests_post E (generate_request (gui_payload vars prompt) (stream_var vars) 300) = PostRaises e"
  shows "generate_thread E flag vars prompt q =
           (q @ [AppendOutput (ErrorText e), UpdateStatus ''Error'' ''red'', GenerationComplete], Inr ())"
  using assms
  by (cases "stream_var vars")
    (simp_all add: generate_thread_def generate_stream_def generate_non_stream_def generate_request_def
      post_def try_finally_def try_except_def raise_def after_def Let_def)


section \<open>The terminal record\<close>

text \<open>
  C1, as amended. A line whose object says \<^verbatim>\<open>done\<close> is recorded as the last record, and it
  does not end the reading. On a stream \<open>pre @ line # rest\<close> whose lines are all well formed
  and whose \<open>line\<close> says \<^verbatim>\<open>done\<close>, the chunks of \<open>rest\<close> are forwarded after the chunk of
  \<open>line\<close>, and the record that the loop returns is the last object of \<open>rest\<close> that says
  \<^verbatim>\<open>done\<close>, or the object of \<open>line\<close> when \<open>rest\<close> has none. This holds for the loop of the
  command-line client when standard output can encode every chunk of the stream, and for
  the loop of the desktop client, which leaves out the chunks that are empty strings, when
  the Stop flag stays set at every line.
\<close>

theorem done_line_does_not_end_the_loop:
  assumes "list_all (well_formed_line E) (pre @ line # rest)"
    and "line \<noteq> []" and "parse_line E line = Some data" and "is_done data"
  shows "(encodable_chunks E (pre @ line # rest) \<longrightarrow>
          stream_loop E (pre @ line # rest) None s =
            (s\<lparr>stdout := stdout s @ chunks E pre @ chunks E [line] @ chunks E rest\<rparr>,
             Inr (last_done E rest (Some data))))
         \<and> ((\<forall>i. flag i) \<longrightarrow>
          gui_stream_loop E flag (pre @ line # rest) 0 None q =
            (q @ shown_chunks E pre @ shown_chunks E [line] @ shown_chunks E rest,
             Inr (True, last_done E rest (Some data))))"
proof -
  have l: "last_done E (pre @ line # rest) None = last_done E rest (Some data)"
    using assms(2,3,4) by (simp add: last_done_append last_done_Cons)
  have c: "chunks E (pre @ line # rest) = chunks E pre @ chunks E [line] @ chunks E rest"
    using chunks_append [of E pre "[line] @ rest"] chunks_append [of E "[line]" rest] by simp
  have g: "shown_chunks E (pre @ line # rest) =
      shown_chunks E pre @ shown_chunks E [line] @ shown_chunks E rest"
    using shown_chunks_append [of E pre "[line] @ rest"] shown_chunks_append [of E "[line]" rest]
    by simp
  show ?thesis
  proof (intro conjI impI)
    assume "encodable_chunks E (pre @ line # rest)"
    then show "stream_loop E (pre @ line # rest) None s =
        (s\<lparr>stdout := stdout s @ chunks E pre @ chunks E [line] @ chunks E rest\<rparr>,
         Inr (last_done E rest (Some data)))"
      using stream_loop_well_formed [OF assms(1), where last_data = None and s = s] l c by simp
  next
    assume "\<forall>i. flag i"
    then have "\<And>i. flag i" by simp
    then show "gui_stream_loop E flag (pre @ line # rest) 0 None q =
        (q @ shown_chunks E pre @ shown_chunks E [line] @ shown_chunks E rest,
         Inr (True, last_done E rest (Some data)))"
      using gui_stream_loop_well_formed [OF assms(1), where flag = flag and i = 0
          and last_data = None and q = q] l g
      by simp
  qed
qed

theorem done_line_does_not_end_the_loop_witness:
  "stream_loop (sample_env (stream_response [line_a_done, line_b])) ([] @ line_a_done # [line_b]) None io0 =
     (\<lparr>stdout = [''a'', ''b''], stderr = []\<rparr>,
      Inr (Some (JObj [(''response'', JStr ''a''), (''done'', JBool True)])))
   \<and> gui_stream_loop (sample_env (stream_response [line_a_done, line_b])) (\<lambda>i. True)
       ([] @ line_a_done # [line_b]) 0 None [] =
     ([AppendOutput (Text (JStr ''a'')), AppendOutput (Text (JStr ''b''))],
      Inr (True, Some (JObj [(''response'', JStr ''a''), (''done'', JBool True)])))"
proof -
  let ?E = "sample_env (stream_response [line_a_done, line_b])"
  let ?d = "JObj [(''response'', JStr ''a''), (''done'', JBool True)]"
  have 1: "list_all (well_formed_line ?E) ([] @ line_a_done # [line_b])" by code_simp
  have 2: "line_a_done \<noteq> []" by code_simp
  have 3: "parse_line ?E line_a_done = Some ?d" by code_simp
  have 4: "is_done ?d" by code_simp
  have 5: "chunks ?E [] @ chunks ?E [line_a_done] @ chunks ?E [line_b] = [''a'', ''b'']"
    by code_simp
  have 6: "shown_chunks ?E [] @ shown_chunks ?E [line_a_done] @ shown_chunks ?E [line_b] =
      [AppendOutput (Text (JStr ''a'')), AppendOutput (Text (JStr ''b''))]"
    by code_simp
  have 7: "last_done ?E [line_b] (Some ?d) = Some ?d" by code_simp
  have 8: "encodable_chunks ?E ([] @ line_a_done # [line_b])" by code_simp
  have 9: "\<forall>i. (\<lambda>i. True) i" by simp
  note t = done_line_does_not_end_the_loop [OF 1 2 3 4, of io0 "\<lambda>i. True" "[]"]
  from t 8 have "stream_loop ?E ([] @ line_a_done # [line_b]) None io0 =
      (io0\<lparr>stdout := stdout io0 @ chunks ?E [] @ chunks ?E [line_a_done] @ chunks ?E [line_b]\<rparr>,
       Inr (last_done ?E [line_b] (Some ?d)))"
    by blast
  with 5 7 have c1: "stream_loop ?E ([] @ line_a_done # [line_b]) None io0 =
      (\<lparr>stdout = [''a'', ''b''], stderr = []\<rparr>, Inr (Some ?d))"
    by (simp add: io0_def)
  from t 9 have "gui_stream_loop ?E (\<lambda>i. True) ([] @ line_a_done # [line_b]) 0 None [] =
      ([] @ shown_chunks ?E [] @ shown_chunks ?E [line_a_done] @ shown_chunks ?E [line_b],
       Inr (True, last_done ?E [line_b] (Some ?d)))"
    by blast
  with 6 7 have c2: "gui_stream_loop ?E (\<lambda>i. True) ([] @ line_a_done # [line_b]) 0 None [] =
      ([AppendOutput (Text (JStr ''a'')), AppendOutput (Text (JStr ''b''))], Inr (True, Some ?d))"
    by simp
  from c1 c2 show ?thesis by (intro conjI)
qed

text \<open>
  C1, as stated, fails on the stream of two lines \<^verbatim>\<open>{"response":"a","done":true}\<close> and
  \<^verbatim>\<open>{"response":"b"}\<close>: the first line says \<^verbatim>\<open>done\<close>, and both clients still read the
  second line and forward its chunk.
\<close>

theorem lines_after_done_are_forwarded:
  "parse_line (sample_env (stream_response [line_a_done, line_b])) line_a_done =
     Some (JObj [(''response'', JStr ''a''), (''done'', JBool True)])
   \<and> generate (sample_env (stream_response [line_a_done, line_b])) ''hi'' ''x'' True 300 (Some 99) False io0 =
     (\<lparr>stdout = [''a'', ''b'', newline], stderr = []\<rparr>, Inr JNull)
   \<and> generate_thread (sample_env (stream_response [line_a_done, line_b])) (\<lambda>i. True) (vars0 True) ''hi'' [] =
     ([AppendOutput (Text (JStr ''a'')), AppendOutput (Text (JStr ''b'')),
       AppendOutput (Text (JStr newline)),
       UpdateStats (JObj [(''response'', JStr ''a''), (''done'', JBool True)]),
       GenerationComplete], Inr ())"
  by code_simp

section \<open>The derived statistics\<close>







section \<open>Streaming\<close>








section \<open>Non-streaming\<close>




section \<open>What the caller gets back\<close>

text \<open>
  C10, as amended. A call of \<^verbatim>\<open>generate\<close> with \<^verbatim>\<open>stream=True\<close> that returns, returns
  \<^verbatim>\<open>None\<close> (it can also end with an exception). A call that returns a string is a
  non-streaming call whose request succeeded: the server answered with a status that is no
  error and with a JSON object, and the string is the \<^verbatim>\<open>response\<close> field of that object. A
  non-streaming call whose request fails with an error of \<^verbatim>\<open>requests\<close> (the connection
  fails or times out, the status is an error, or \<^verbatim>\<open>Response.json()\<close> rejects the body)
  returns \<^verbatim>\<open>None\<close>. A non-streaming call whose request succeeds with a JSON object returns
  the value of the \<^verbatim>\<open>response\<close> field of that object, the empty string when the field is
  absent, provided that, with \<^verbatim>\<open>verbose\<close>, printing the statistics of the object raises no
  exception: a string, which may be empty, when the field is a string or absent, and
  \<^verbatim>\<open>None\<close> when the field is \<^verbatim>\<open>null\<close>.
\<close>

theorem generate_return_value:
  "(snd (generate E prompt model True timeout num_gpu verbose s) = Inr v \<longrightarrow> v = JNull)
   \<and> (snd (generate E prompt model stream timeout num_gpu verbose s) = Inr (JStr x) \<longrightarrow>
        \<not> stream \<and>
        (\<exists>resp kv.
           requests_post E (generate_request (build_payload prompt model False num_gpu) False timeout) =
             PostReturns resp \<and>
           \<not> http_error resp \<and> response_json E resp = Inr (JObj kv) \<and>
           dict_get kv ''response'' (JStr '''') = JStr x))
   \<and> (request_fails E (generate_request (build_payload prompt model False num_gpu) False timeout) \<longrightarrow>
        snd (generate E prompt model False timeout num_gpu verbose s) = Inr JNull)
   \<and> (requests_post E (generate_request (build_payload prompt model False num_gpu) False timeout) =
          PostReturns resp \<and>
        \<not> http_error resp \<and> response_json E resp = Inr (JObj kv) \<and>
        (verbose \<longrightarrow> snd (print_verbose_stats (JObj kv) s) = Inr ()) \<longrightarrow>
        snd (generate E prompt model False timeout num_gpu verbose s) =
          Inr (dict_get kv ''response'' (JStr '''')))"
proof (intro conjI impI)
  assume "snd (generate E prompt model True timeout num_gpu verbose s) = Inr v"
  then show "v = JNull" by (rule streaming_returns_None)
next
  assume r: "snd (generate E prompt model stream timeout num_gpu verbose s) = Inr (JStr x)"
  from string_returned_only_on_success [OF r] show "\<not> stream" by blast
  from string_returned_only_on_success [OF r]
  show "\<exists>resp kv.
      requests_post E (generate_request (build_payload prompt model False num_gpu) False timeout) =
        PostReturns resp \<and>
      \<not> http_error resp \<and> response_json E resp = Inr (JObj kv) \<and>
      dict_get kv ''response'' (JStr '''') = JStr x"
    by blast
next
  assume "request_fails E (generate_request (build_payload prompt model False num_gpu) False timeout)"
  then show "snd (generate E prompt model False timeout num_gpu verbose s) = Inr JNull"
    by (rule failed_request_returns_None)
next
  assume a: "requests_post E (generate_request (build_payload prompt model False num_gpu) False timeout) =
        PostReturns resp \<and>
      \<not> http_error resp \<and> response_json E resp = Inr (JObj kv) \<and>
      (verbose \<longrightarrow> snd (print_verbose_stats (JObj kv) s) = Inr ())"
  then have "snd (generate E prompt model False timeout num_gpu verbose s) =
      Inr (dict_get kv ''response'' (JStr '''')) \<and>
      stdout (fst (generate E prompt model False timeout num_gpu verbose s)) = stdout s"
    by (intro non_streaming_success) blast+
  then show "snd (generate E prompt model False timeout num_gpu verbose s) =
      Inr (dict_get kv ''response'' (JStr ''''))"
    by simp
qed

theorem generate_return_value_witness:
  "snd (generate (sample_env (stream_response [line_a, line_b_done])) ''hi'' ''x'' True 300 (Some 99)
          False io0) = Inr JNull
   \<and> snd (generate (sample_env (body_response body_hello)) ''hi'' ''x'' False 300 (Some 99) True io0) =
       Inr (JStr ''hello'')
   \<and> (\<exists>resp kv.
         requests_post (sample_env (body_response body_hello))
           (generate_request (build_payload ''hi'' ''x'' False (Some 99)) False 300) = PostReturns resp \<and>
         \<not> http_error resp \<and>
         response_json (sample_env (body_response body_hello)) resp = Inr (JObj kv) \<and>
         dict_get kv ''response'' (JStr '''') = JStr ''hello'')
   \<and> snd (generate (sample_env (body_response body_empty_object)) ''hi'' ''x'' False 300 (Some 99)
          False io0) = Inr (JStr '''')
   \<and> snd (generate (sample_env (body_response not_json)) ''hi'' ''x'' False 300 (Some 99) False io0) =
       Inr JNull
   \<and> snd (generate (sample_env (PostRaises ConnectionError)) ''hi'' ''x'' False 300 (Some 99) False io0) =
       Inr JNull"
proof -
  let ?A = "sample_env (stream_response [line_a, line_b_done])"
  let ?B = "sample_env (body_response body_hello)"
  let ?C = "sample_env (body_response body_empty_object)"
  let ?D = "sample_env (body_response not_json)"
  let ?N = "sample_env (PostRaises ConnectionError)"
  let ?req = "generate_request (build_payload ''hi'' ''x'' False (Some 99)) False 300"
  let ?rb = "\<lparr>status_code = 200, iter_lines = [body_hello], iter_error = None, content = body_hello\<rparr>"
  let ?rc = "\<lparr>status_code = 200, iter_lines = [body_empty_object], iter_error = None,
      content = body_empty_object\<rparr>"
  have a: "snd (generate ?A ''hi'' ''x'' True 300 (Some 99) False io0) = Inr JNull"
    by code_simp
  have b: "requests_post ?B ?req = PostReturns ?rb \<and> \<not> http_error ?rb \<and>
      response_json ?B ?rb = Inr (JObj hello_record) \<and>
      (True \<longrightarrow> snd (print_verbose_stats (JObj hello_record) io0) = Inr ())"
  proof -
    have "requests_post ?B ?req = PostReturns ?rb" by (simp add: sample_env_def body_response_def)
    moreover have "\<not> http_error ?rb" by code_simp
    moreover have "response_json ?B ?rb = Inr (JObj hello_record)" by code_simp
    moreover have "snd (print_verbose_stats (JObj hello_record) io0) = Inr ()" by code_simp
    ultimately show ?thesis by simp
  qed
  have bf: "dict_get hello_record ''response'' (JStr '''') = JStr ''hello''" by code_simp
  have c: "requests_post ?C ?req = PostReturns ?rc \<and> \<not> http_error ?rc \<and>
      response_json ?C ?rc = Inr (JObj []) \<and>
      (False \<longrightarrow> snd (print_verbose_stats (JObj []) io0) = Inr ())"
  proof -
    have "requests_post ?C ?req = PostReturns ?rc" by (simp add: sample_env_def body_response_def)
    moreover have "\<not> http_error ?rc" by code_simp
    moreover have "response_json ?C ?rc = Inr (JObj [])" by code_simp
    ultimately show ?thesis by simp
  qed
  have cf: "dict_get [] ''response'' (JStr '''') = JStr ''''" by code_simp
  have d: "request_fails ?D ?req" by code_simp
  have n: "request_fails ?N ?req" by code_simp
  from a generate_return_value [of ?A "''hi''" "''x''" 300 "Some 99" False io0 JNull]
  have c1: "snd (generate ?A ''hi'' ''x'' True 300 (Some 99) False io0) = Inr JNull"
    by blast
  from b generate_return_value [where E = ?B and prompt = "''hi''" and model = "''x''" and timeout = 300
      and num_gpu = "Some 99" and verbose = True and s = io0 and resp = ?rb and kv = hello_record]
  have "snd (generate ?B ''hi'' ''x'' False 300 (Some 99) True io0) =
      Inr (dict_get hello_record ''response'' (JStr ''''))"
    by blast
  then have c2: "snd (generate ?B ''hi'' ''x'' False 300 (Some 99) True io0) = Inr (JStr ''hello'')"
    by (simp add: bf)
  from c2 generate_return_value [where E = ?B and prompt = "''hi''" and model = "''x''" and timeout = 300
      and num_gpu = "Some 99" and verbose = True and s = io0 and stream = False and x = "''hello''"]
  have c2': "\<exists>resp kv. requests_post ?B ?req = PostReturns resp \<and> \<not> http_error resp \<and>
      response_json ?B resp = Inr (JObj kv) \<and> dict_get kv ''response'' (JStr '''') = JStr ''hello''"
    by blast
  from c generate_return_value [where E = ?C and prompt = "''hi''" and model = "''x''" and timeout = 300
      and num_gpu = "Some 99" and verbose = False and s = io0 and resp = ?rc and kv = "[]"]
  have "snd (generate ?C ''hi'' ''x'' False 300 (Some 99) False io0) =
      Inr (dict_get [] ''response'' (JStr ''''))"
    by blast
  then have c3: "snd (generate ?C ''hi'' ''x'' False 300 (Some 99) False io0) = Inr (JStr '''')"
    by (simp add: cf)
  from d generate_return_value [where E = ?D and prompt = "''hi''" and model = "''x''" and timeout = 300
      and num_gpu = "Some 99" and verbose = False and s = io0]
  have c4: "snd (generate ?D ''hi'' ''x'' False 300 (Some 99) False io0) = Inr JNull"
    by blast
  from n generate_return_value [where E = ?N and prompt = "''hi''" and model = "''x''" and timeout = 300
      and num_gpu = "Some 99" and verbose = False and s = io0]
  have c5: "snd (generate ?N ''hi'' ''x'' False 300 (Some 99) False io0) = Inr JNull"
    by blast
  from c1 c2 c2' c3 c4 c5 show ?thesis by (intro conjI)
qed

text \<open>
  C10, as stated, fails on the body \<^verbatim>\<open>{"response":null}\<close>: the non-streaming request
  succeeds (the status is 200 and the body is a JSON object), and the call returns
  \<^verbatim>\<open>None\<close>, which is also what a failed call returns. So \<^verbatim>\<open>None\<close> does not tell the
  caller of a non-streaming call that the request failed.
\<close>

theorem null_response_returns_None:
  "\<not> request_fails (sample_env (body_response body_null))
       (generate_request (build_payload ''hi'' ''x'' False (Some 99)) False 300)
   \<and> response_json (sample_env (body_response body_null))
       \<lparr>status_code = 200, iter_lines = [body_null], iter_error = None, content = body_null\<rparr> =
     Inr (JObj [(''response'', JNull)])
   \<and> generate (sample_env (body_response body_null)) ''hi'' ''x'' False 300 (Some 99) False io0 =
     (\<lparr>stdout = [], stderr = []\<rparr>, Inr JNull)
   \<and> generate (sample_env (PostRaises ConnectionError)) ''hi'' ''x'' False 300 (Some 99) False io0 =
     (\<lparr>stdout = [], stderr = [ErrUnreachable ConnectionError]\<rparr>, Inr JNull)"
  by code_simp

section \<open>Errors that the command-line client does not turn into its messages\<close>

text \<open>
  C7, at an input where the call fails. The server answers a streaming request with one
  line, the byte 0xFF, which is not UTF-8 and so is not JSON. \<^verbatim>\<open>line.decode("utf-8")\<close>
  raises \<^verbatim>\<open>UnicodeDecodeError\<close>; neither \<^verbatim>\<open>except\<close> clause of \<^verbatim>\<open>generate\<close> takes it, and
  the call ends with the exception and no message. On the same answer the desktop client
  catches the exception, appends the error line, sets the status and completes.
\<close>

theorem undecodable_line_escapes_generate:
  "generate (sample_env (stream_response [not_utf8])) ''hi'' ''x'' True 300 (Some 99) False io0 =
     (\<lparr>stdout = [], stderr = []\<rparr>, Inl UnicodeDecodeError)
   \<and> generate_thread (sample_env (stream_response [not_utf8])) (\<lambda>i. True) (vars0 True) ''hi'' [] =
     ([AppendOutput (ErrorText UnicodeDecodeError), UpdateStatus ''Error'' ''red'',
       GenerationComplete], Inr ())"
  by code_simp

text \<open>
  C8, at an input where the message is the wrong one. The server answers a non-streaming
  request with the body \<^verbatim>\<open>not json\<close>. \<^verbatim>\<open>resp.json()\<close> raises
  \<^verbatim>\<open>requests.exceptions.JSONDecodeError\<close>, which is a \<^verbatim>\<open>RequestException\<close>, so the first
  \<^verbatim>\<open>except\<close> clause takes it and the client prints the message of an unreachable server.
  The same text as a line of a streaming response gets the message of invalid JSON.
\<close>

theorem invalid_body_reported_as_unreachable:
  "generate (sample_env (body_response not_json)) ''hi'' ''x'' False 300 (Some 99) False io0 =
     (\<lparr>stdout = [], stderr = [ErrUnreachable RequestsJSONDecodeError]\<rparr>, Inr JNull)
   \<and> generate (sample_env (stream_response [not_json])) ''hi'' ''x'' True 300 (Some 99) False io0 =
     (\<lparr>stdout = [], stderr = [ErrInvalidJSON JSONDecodeError]\<rparr>, Inr JNull)"
  by code_simp

section \<open>The request payload\<close>

text \<open>
  C9. The payload that \<^verbatim>\<open>generate\<close> builds holds \<^verbatim>\<open>model\<close>, \<^verbatim>\<open>prompt\<close> and \<^verbatim>\<open>stream\<close>, in this
  order, and nothing else when \<^verbatim>\<open>num_gpu\<close> is \<^verbatim>\<open>None\<close>; when \<^verbatim>\<open>num_gpu\<close> is a number \<open>n\<close> it
  holds one more field, \<^verbatim>\<open>options\<close>, whose value is the object \<^verbatim>\<open>{"num_gpu": n}\<close>. So
  \<^verbatim>\<open>options\<close> is there exactly when a number is given. The desktop client reads the number
  from an \<^verbatim>\<open>IntVar\<close>, so its payload always has the four fields.
\<close>

theorem payload_options:
  "build_payload prompt model stream num_gpu =
     [(''model'', JStr model), (''prompt'', JStr prompt), (''stream'', JBool stream)] @
     (case num_gpu of None \<Rightarrow> [] | Some n \<Rightarrow> [(''options'', JObj [(''num_gpu'', JInt n)])])
   \<and> map_of (build_payload prompt model stream num_gpu) ''options'' =
       map_option (\<lambda>n. JObj [(''num_gpu'', JInt n)]) num_gpu
   \<and> gui_payload vars prompt =
       [(''model'', JStr (model_var vars)), (''prompt'', JStr prompt),
        (''stream'', JBool (stream_var vars)),
        (''options'', JObj [(''num_gpu'', JInt (gpu_var vars))])]"
  by (simp add: build_payload_def gui_payload_def split: option.splits)

end
